theory Spec2Isabelle
  imports Main "HOL-Library.Word" "HOL-Library.Monad_Syntax"
begin

section \<open>DMX512 receiver and decoder (Core/Src/DMX512.c, Core/Inc/DMX512.h)\<close>

subsection \<open>Constants of DMX512.h\<close>

definition DMX_FRAME_SIZE :: nat where
  "DMX_FRAME_SIZE = 513"

definition DMX_START_CODE :: "8 word" where
  "DMX_START_CODE = 0"

definition DMX_CHANNEL_MIN :: nat where
  "DMX_CHANNEL_MIN = 1"

definition DMX_CHANNEL_MAX :: nat where
  "DMX_CHANNEL_MAX = 506"

definition DMX_OFFSET_RED :: nat where
  "DMX_OFFSET_RED = 0"

definition DMX_OFFSET_GREEN :: nat where
  "DMX_OFFSET_GREEN = 1"

definition DMX_OFFSET_BLUE :: nat where
  "DMX_OFFSET_BLUE = 2"

definition DMX_OFFSET_DIMMER :: nat where
  "DMX_OFFSET_DIMMER = 3"

definition DMX_OFFSET_FLASH :: nat where
  "DMX_OFFSET_FLASH = 4"

subsection \<open>Data\<close>

text \<open>The struct of decoded values: five \<open>uint8_t\<close> fields.\<close>

record DMX_DataTypeDef =
  red :: "8 word"
  green :: "8 word"
  blue :: "8 word"
  dimmer :: "8 word"
  flash :: "8 word"

text \<open>A \<open>UART_HandleTypeDef *\<close>: the null pointer or the address of a handle.\<close>

datatype uart_ptr = NULL | Handle nat

text \<open>
  The file-scope variables of DMX512.c, with the widths the C declarations give them:
  \<open>dmxChannel\<close> and \<open>dmxFlag\<close> are \<open>uint8_t\<close>, \<open>indexDmx\<close> is \<open>uint16_t\<close>, the two
  statistics counters are \<open>uint32_t\<close>, \<open>dmxFrame\<close> is an array of \<open>DMX_FRAME_SIZE\<close> bytes
  and \<open>rxBuf\<close> an array of one byte. \<open>rxArmed\<close> counts the reception requests handed to
  the UART driver.
\<close>

record dmx_state =
  huart_dmx :: uart_ptr
  dmxChannel :: "8 word"
  totalFramesReceived :: "32 word"
  errorFramesReceived :: "32 word"
  dmxFlag :: "8 word"
  indexDmx :: "16 word"
  dmxFrame :: "8 word list"
  rxBuf :: "8 word"
  rxArmed :: nat

text \<open>The values the static initialisers give the variables before any call.\<close>

definition dmx_startup :: dmx_state where
  "dmx_startup =
     \<lparr>huart_dmx = NULL, dmxChannel = 1, totalFramesReceived = 0, errorFramesReceived = 0,
      dmxFlag = 0, indexDmx = 0, dmxFrame = replicate DMX_FRAME_SIZE 0, rxBuf = 0,
      rxArmed = 0\<rparr>"

text \<open>The array has its declared size: the typing invariant of \<open>dmxFrame\<close>.\<close>

definition frame_ok :: "dmx_state \<Rightarrow> bool" where
  "frame_ok s = (length (dmxFrame s) = DMX_FRAME_SIZE)"

subsection \<open>Operations\<close>

text \<open>
  Modelled from the spec: \<open>HAL_UART_Receive_IT\<close> belongs to the vendor's UART driver and is
  not among the sources; the spec says each callback "re-arms single-byte reception on the
  link". The model records the request and touches nothing else.
\<close>

definition HAL_UART_Receive_IT :: "dmx_state \<Rightarrow> dmx_state" where
  "HAL_UART_Receive_IT s = s\<lparr>rxArmed := Suc (rxArmed s)\<rparr>"

text \<open>
  \<open>DMX_SetChannel\<close>: the parameter is a \<open>uint8_t\<close>; in the comparison it is promoted to
  \<open>int\<close> and compared with the two bounds.
\<close>

definition DMX_SetChannel :: "8 word \<Rightarrow> dmx_state \<Rightarrow> bool \<times> dmx_state" where
  "DMX_SetChannel channel s =
     (if DMX_CHANNEL_MIN \<le> unat channel \<and> unat channel \<le> DMX_CHANNEL_MAX
      then (True, s\<lparr>dmxChannel := channel\<rparr>)
      else (False, s))"

definition DMX_GetChannel :: "dmx_state \<Rightarrow> 8 word" where
  "DMX_GetChannel s = dmxChannel s"

text \<open>
  The conversion C applies to an integer argument passed for a \<open>uint8_t\<close> parameter:
  reduction modulo 256.
\<close>

definition uint8_arg :: "int \<Rightarrow> 8 word" where
  "uint8_arg n = word_of_int n"

definition DMX_ResetStats :: "dmx_state \<Rightarrow> dmx_state" where
  "DMX_ResetStats s = s\<lparr>totalFramesReceived := 0, errorFramesReceived := 0\<rparr>"

definition DMX_Init :: "uart_ptr \<Rightarrow> 8 word \<Rightarrow> dmx_state \<Rightarrow> dmx_state" where
  "DMX_Init huart startChannel s =
     (let s1 = s\<lparr>huart_dmx := huart\<rparr>;
          s2 = snd (DMX_SetChannel startChannel s1);
          s3 = s2\<lparr>indexDmx := 0, dmxFlag := 0, dmxFrame := replicate DMX_FRAME_SIZE 0\<rparr>;
          s4 = DMX_ResetStats s3
      in HAL_UART_Receive_IT s4)"

definition DMX_IsNewFrameAvailable :: "dmx_state \<Rightarrow> bool \<times> dmx_state" where
  "DMX_IsNewFrameAvailable s =
     (if dmxFlag s = 1 then (True, s\<lparr>dmxFlag := 0\<rparr>) else (False, s))"

text \<open>
  A read of the frame array. An index outside the array is undefined behaviour in C; the
  model returns \<open>None\<close> there.
\<close>

definition frame_read :: "8 word list \<Rightarrow> nat \<Rightarrow> 8 word option" where
  "frame_read fr i = (if i < length fr then Some (fr ! i) else None)"

text \<open>
  \<open>DMX_DecodeFrame\<close>. The argument is the destination pointer: \<open>None\<close> for the null
  pointer, \<open>Some d\<close> for a struct currently holding \<open>d\<close>. The result is the returned
  boolean, the destination's contents afterwards and the new state; \<open>None\<close> when a read
  leaves the array. The index \<open>dmxChannel + offset\<close> is computed in \<open>int\<close>, so it does
  not wrap.
\<close>

definition DMX_DecodeFrame ::
  "DMX_DataTypeDef option \<Rightarrow> dmx_state \<Rightarrow> (bool \<times> DMX_DataTypeDef option \<times> dmx_state) option"
where
  "DMX_DecodeFrame data s =
     (case data of
        None \<Rightarrow> Some (False, None, s)
      | Some d \<Rightarrow>
          do {
            sc \<leftarrow> frame_read (dmxFrame s) 0;
            if sc \<noteq> DMX_START_CODE
            then Some (False, Some d, s\<lparr>errorFramesReceived := errorFramesReceived s + 1\<rparr>)
            else do {
              r \<leftarrow> frame_read (dmxFrame s) (unat (dmxChannel s) + DMX_OFFSET_RED);
              g \<leftarrow> frame_read (dmxFrame s) (unat (dmxChannel s) + DMX_OFFSET_GREEN);
              b \<leftarrow> frame_read (dmxFrame s) (unat (dmxChannel s) + DMX_OFFSET_BLUE);
              di \<leftarrow> frame_read (dmxFrame s) (unat (dmxChannel s) + DMX_OFFSET_DIMMER);
              f \<leftarrow> frame_read (dmxFrame s) (unat (dmxChannel s) + DMX_OFFSET_FLASH);
              Some (True,
                    Some (d\<lparr>red := r, green := g, blue := b, dimmer := di, flash := f\<rparr>),
                    s\<lparr>totalFramesReceived := totalFramesReceived s + 1\<rparr>)
            }
          })"

text \<open>
  \<open>DMX_ApplyDimmer\<close>: both operands are converted to \<open>uint32_t\<close>, multiplied and divided
  there, and the quotient is converted back to \<open>uint8_t\<close> by the assignment. The result is
  the contents of the output struct afterwards.
\<close>

definition scale :: "8 word \<Rightarrow> 8 word \<Rightarrow> 8 word" where
  "scale c d = ucast (((ucast c :: 32 word) * (ucast d :: 32 word)) div 255)"

definition DMX_ApplyDimmer ::
  "DMX_DataTypeDef option \<Rightarrow> DMX_DataTypeDef option \<Rightarrow> DMX_DataTypeDef option"
where
  "DMX_ApplyDimmer data output =
     (case (data, output) of
        (Some d, Some out) \<Rightarrow>
          Some (out\<lparr>red := scale (red d) (dimmer d),
                    green := scale (green d) (dimmer d),
                    blue := scale (blue d) (dimmer d),
                    dimmer := dimmer d,
                    flash := flash d\<rparr>)
      | _ \<Rightarrow> output)"

definition DMX_ErrorCallback :: "uart_ptr \<Rightarrow> dmx_state \<Rightarrow> dmx_state" where
  "DMX_ErrorCallback huart s =
     (if huart = huart_dmx s
      then HAL_UART_Receive_IT (s\<lparr>indexDmx := 0, dmxFlag := 0\<rparr>)
      else s)"

definition DMX_RxCallback :: "uart_ptr \<Rightarrow> dmx_state \<Rightarrow> dmx_state" where
  "DMX_RxCallback huart s =
     (if huart = huart_dmx s
      then
        HAL_UART_Receive_IT
          (if unat (indexDmx s) < DMX_FRAME_SIZE
           then
             (let s1 = s\<lparr>dmxFrame := (dmxFrame s)[unat (indexDmx s) := rxBuf s],
                         indexDmx := indexDmx s + 1\<rparr>
              in if DMX_FRAME_SIZE \<le> unat (indexDmx s1) then s1\<lparr>dmxFlag := 1\<rparr> else s1)
           else s)
      else s)"

text \<open>
  \<open>DMX_GetStats\<close>: each of the two destinations is written unless it is the null pointer
  (\<open>None\<close>); the result is what the two destinations hold afterwards.
\<close>

definition DMX_GetStats ::
  "32 word option \<Rightarrow> 32 word option \<Rightarrow> dmx_state \<Rightarrow> 32 word option \<times> 32 word option"
where
  "DMX_GetStats totalFrames errorFrames s =
     ((case totalFrames of None \<Rightarrow> None | Some _ \<Rightarrow> Some (totalFramesReceived s)),
      (case errorFrames of None \<Rightarrow> None | Some _ \<Rightarrow> Some (errorFramesReceived s)))"

subsection \<open>Events of the receiver\<close>

text \<open>
  The three events the receiver sees. The UART driver writes the received byte into
  \<open>rxBuf\<close> and then calls the reception callback with the handle of the link; a break
  reaches the module as the error callback for that handle.
\<close>

datatype event = BreakSignal | ByteReceived "8 word" | PollAndClear

fun step :: "event \<Rightarrow> dmx_state \<Rightarrow> dmx_state" where
  "step BreakSignal s = DMX_ErrorCallback (huart_dmx s) s"
| "step (ByteReceived b) s = DMX_RxCallback (huart_dmx s) (s\<lparr>rxBuf := b\<rparr>)"
| "step PollAndClear s = snd (DMX_IsNewFrameAvailable s)"

fun run :: "event list \<Rightarrow> dmx_state \<Rightarrow> dmx_state" where
  "run [] s = s"
| "run (e # es) s = run es (step e s)"

fun is_byte :: "event \<Rightarrow> bool" where
  "is_byte (ByteReceived b) = True"
| "is_byte e = False"

text \<open>
  The states the module can be in: the startup values, and whatever a call of one of its
  functions makes of a reachable state, with any handle, any argument and any received
  byte.
\<close>

inductive reachable :: "dmx_state \<Rightarrow> bool" where
  startup: "reachable dmx_startup"
| init: "reachable s \<Longrightarrow> reachable (DMX_Init huart c s)"
| set_channel: "reachable s \<Longrightarrow> reachable (snd (DMX_SetChannel c s))"
| poll: "reachable s \<Longrightarrow> reachable (snd (DMX_IsNewFrameAvailable s))"
| decode: "reachable s \<Longrightarrow> DMX_DecodeFrame data s = Some (ok, out, s') \<Longrightarrow> reachable s'"
| break: "reachable s \<Longrightarrow> reachable (DMX_ErrorCallback huart s)"
| byte: "reachable s \<Longrightarrow> reachable (DMX_RxCallback huart (s\<lparr>rxBuf := b\<rparr>))"
| reset: "reachable s \<Longrightarrow> reachable (DMX_ResetStats s)"

subsection \<open>Invariants\<close>

text \<open>
  The ready flag is 0 or 1, and it is 1 only with a full buffer.
\<close>

definition gate_inv :: "dmx_state \<Rightarrow> bool" where
  "gate_inv s = ((dmxFlag s = 0 \<or> dmxFlag s = 1)
     \<and> (dmxFlag s = 1 \<longrightarrow> unat (indexDmx s) = DMX_FRAME_SIZE))"

text \<open>The stored address is not 0 and the frame array has its declared size.\<close>

definition addr_inv :: "dmx_state \<Rightarrow> bool" where
  "addr_inv s = (dmxChannel s \<noteq> 0 \<and> frame_ok s)"

subsection \<open>Example data\<close>

definition d0 :: DMX_DataTypeDef where
  "d0 = \<lparr>red = 1, green = 2, blue = 3, dimmer = 4, flash = 5\<rparr>"

text \<open>The state after \<open>DMX_Init(&huart1, 10)\<close>.\<close>

definition s_init :: dmx_state where
  "s_init = DMX_Init (Handle 1) 10 dmx_startup"

text \<open>The same with five marker bytes in the channels 10 to 14.\<close>

definition s_marked :: dmx_state where
  "s_marked =
     s_init\<lparr>dmxFrame := (dmxFrame s_init)[10 := 11, 11 := 22, 12 := 33, 13 := 44, 14 := 55]\<rparr>"

text \<open>
  The initialised state with the marker bytes 11, 22, 33, 44, 55 in the channels 300 to 304
  and the bytes 101 to 105 in the channels 44 to 48.
\<close>

definition s_frame300 :: dmx_state where
  "s_frame300 =
     s_init\<lparr>dmxFrame := (dmxFrame s_init)
       [44 := 101, 45 := 102, 46 := 103, 47 := 104, 48 := 105,
        300 := 11, 301 := 22, 302 := 33, 303 := 44, 304 := 55]\<rparr>"

text \<open>The state after a break and a whole frame of zero bytes.\<close>

definition s_full :: dmx_state where
  "s_full = run (map ByteReceived (replicate DMX_FRAME_SIZE 0)) (step BreakSignal s_init)"

section \<open>Properties\<close>

subsection \<open>Arithmetic on the machine integers\<close>

lemma unat_u8_lt: "unat (c :: 8 word) < 256"
  using unsigned_less [of c] by simp

lemma unat_up: "unat (ucast (c :: 8 word) :: 32 word) = unat c"
  using unat_u8_lt [of c] by (simp add: unsigned_ucast_eq take_bit_nat_eq_self)

lemma prod_le: "unat (c :: 8 word) * unat (d :: 8 word) \<le> 65025"
proof -
  have "unat c * unat d \<le> 255 * 255"
    using unat_u8_lt [of c] unat_u8_lt [of d] by (intro mult_le_mono) simp_all
  then show ?thesis by simp
qed

lemma scale_prod:
  "unat ((ucast (c :: 8 word) :: 32 word) * ucast (d :: 8 word)) = unat c * unat d"
proof -
  have "unat c * unat d < 2 ^ 32"
    using prod_le [of c d] by simp
  then show ?thesis
    by (simp add: unat_word_ariths unat_up)
qed

lemma scale_quot_le: "unat (c :: 8 word) * unat (d :: 8 word) div 255 \<le> 255"
proof -
  have "unat c * unat d div 255 \<le> 65025 div 255"
    using prod_le [of c d] by (rule div_le_mono)
  then show ?thesis by simp
qed

lemma unat_scale: "unat (scale c d) = unat c * unat d div 255"
proof -
  have "unat (((ucast c :: 32 word) * ucast d) div 255) = unat c * unat d div 255"
    by (simp add: unat_div scale_prod)
  moreover have "unat c * unat d div 255 < 2 ^ 8"
    using scale_quot_le [of c d] by simp
  ultimately show ?thesis
    unfolding scale_def
    by (simp add: unsigned_ucast_eq take_bit_nat_eq_self)
qed

lemma unat_index_suc: "unat (i :: 16 word) < 513 \<Longrightarrow> unat (i + 1) = Suc (unat i)"
  by (simp add: unat_word_ariths)

subsection \<open>The channel address\<close>

text \<open>
  On its 8-bit parameter the setter refuses 0 and nothing else: the upper bound 506 lies
  above every \<open>uint8_t\<close>. A refused call returns the state as it was.
\<close>

lemma SetChannel_nonzero:
  "DMX_SetChannel c s = (if c \<noteq> 0 then (True, s\<lparr>dmxChannel := c\<rparr>) else (False, s))"
  using unat_u8_lt [of c]
  by (auto simp: DMX_SetChannel_def DMX_CHANNEL_MIN_def DMX_CHANNEL_MAX_def Suc_le_eq unat_gt_0)

lemma SetChannel_rejected_keeps: "\<not> fst (DMX_SetChannel c s) \<Longrightarrow> snd (DMX_SetChannel c s) = s"
  by (simp add: SetChannel_nonzero split: if_splits)

text \<open>
  C1. The claim has \<open>setChannel(507)\<close> fail and \<open>setChannel(506)\<close> store 506. In the code
  the argument 507 reaches the \<open>uint8_t\<close> parameter as 251: the call succeeds and stores
  251. The argument 506 arrives as 250, and 250 is stored. No call leaves 506 as the
  stored address.
\<close>

theorem SetChannel_truncates_address:
  "DMX_SetChannel (uint8_arg 507) dmx_startup = (True, dmx_startup\<lparr>dmxChannel := 251\<rparr>)
 \<and> DMX_SetChannel (uint8_arg 506) dmx_startup = (True, dmx_startup\<lparr>dmxChannel := 250\<rparr>)
 \<and> (\<forall>c s. unat (DMX_GetChannel (snd (DMX_SetChannel c s))) \<noteq> 506)"
proof -
  have "unat (DMX_GetChannel (snd (DMX_SetChannel c s))) \<noteq> 506" for c s
    using unat_u8_lt [of "DMX_GetChannel (snd (DMX_SetChannel c s))"] by simp
  then show ?thesis
    by (simp add: DMX_SetChannel_def uint8_arg_def DMX_CHANNEL_MIN_def DMX_CHANNEL_MAX_def)
qed

subsection \<open>Decoding\<close>

lemma frame_read_in: "i < length fr \<Longrightarrow> frame_read fr i = Some (fr ! i)"
  by (simp add: frame_read_def)

lemmas offsets = DMX_OFFSET_RED_def DMX_OFFSET_GREEN_def DMX_OFFSET_BLUE_def
  DMX_OFFSET_DIMMER_def DMX_OFFSET_FLASH_def

lemma DecodeFrame_state:
  assumes "DMX_DecodeFrame data s = Some (ok, out, s')"
  shows "s' = s \<or> s' = s\<lparr>errorFramesReceived := errorFramesReceived s + 1\<rparr>
       \<or> s' = s\<lparr>totalFramesReceived := totalFramesReceived s + 1\<rparr>"
  using assms
  by (auto simp: DMX_DecodeFrame_def split: option.splits if_splits Option.bind_splits)

text \<open>
  C10. Called with a null destination, \<open>DMX_DecodeFrame\<close> returns false and hands back the
  state as it was: both statistics counters, the frame buffer, the fill index and the
  ready flag are unchanged. So a failing decode does not always count an error frame.
\<close>

theorem DecodeFrame_null_unchanged:
  "DMX_DecodeFrame None s = Some (False, None, s)"
  by (simp add: DMX_DecodeFrame_def)

text \<open>
  C2. With a frame whose first byte is not the start code and a destination that is not
  null, \<open>DMX_DecodeFrame\<close> returns false, the destination keeps the values it had, the
  error counter is incremented by 1 (the \<open>++\<close> of a \<open>uint32_t\<close>) and nothing else in the
  state changes; in particular the counter of decoded frames is as before.
\<close>

theorem DecodeFrame_bad_start_code:
  assumes "frame_ok s" and "dmxFrame s ! 0 \<noteq> DMX_START_CODE"
  shows "DMX_DecodeFrame (Some d) s =
           Some (False, Some d, s\<lparr>errorFramesReceived := errorFramesReceived s + 1\<rparr>)"
proof -
  from assms(1) have "frame_read (dmxFrame s) 0 = Some (dmxFrame s ! 0)"
    by (simp add: frame_ok_def DMX_FRAME_SIZE_def frame_read_in)
  with assms(2) show ?thesis
    by (simp add: DMX_DecodeFrame_def)
qed

theorem DecodeFrame_bad_start_code_witness:
  "frame_ok (step (ByteReceived 5) s_init)
 \<and> dmxFrame (step (ByteReceived 5) s_init) ! 0 \<noteq> DMX_START_CODE
 \<and> DMX_DecodeFrame (Some d0) (step (ByteReceived 5) s_init) =
      Some (False, Some d0, step (ByteReceived 5) s_init\<lparr>errorFramesReceived := 1\<rparr>)"
proof -
  have e: "errorFramesReceived (step (ByteReceived 5) s_init) = 0"
    by (simp add: s_init_def DMX_Init_def DMX_SetChannel_def DMX_ResetStats_def
        HAL_UART_Receive_IT_def DMX_RxCallback_def dmx_startup_def Let_def DMX_FRAME_SIZE_def)
  have h1: "frame_ok (step (ByteReceived 5) s_init)"
    by (simp add: s_init_def DMX_Init_def DMX_SetChannel_def DMX_ResetStats_def
        HAL_UART_Receive_IT_def DMX_RxCallback_def dmx_startup_def Let_def frame_ok_def)
  have h2: "dmxFrame (step (ByteReceived 5) s_init) ! 0 \<noteq> DMX_START_CODE"
    by (simp add: s_init_def DMX_Init_def DMX_SetChannel_def DMX_ResetStats_def
        HAL_UART_Receive_IT_def DMX_RxCallback_def dmx_startup_def Let_def DMX_FRAME_SIZE_def
        DMX_START_CODE_def)
  from DecodeFrame_bad_start_code [OF h1 h2, of d0] h1 h2 e show ?thesis by simp
qed

text \<open>
  Whatever the stored address \<open>a\<close>, with the start code in place \<open>DMX_DecodeFrame\<close>
  returns true and fills the destination with the bytes at \<open>a\<close> to \<open>a + 4\<close> of the
  frame, as red, green, blue, dimmer and flash; the counter of decoded frames is
  incremented and the rest of the state, the frame buffer included, is as before. The
  stored address is the \<open>uint8_t\<close> variable \<open>dmxChannel\<close>, so \<open>a\<close> is at most 255.
\<close>

lemma DecodeFrame_reads_stored:
  assumes "frame_ok s" and "dmxFrame s ! 0 = DMX_START_CODE"
  shows "DMX_DecodeFrame (Some d) s =
           Some (True,
                 Some \<lparr>red = dmxFrame s ! (unat (dmxChannel s) + 0),
                       green = dmxFrame s ! (unat (dmxChannel s) + 1),
                       blue = dmxFrame s ! (unat (dmxChannel s) + 2),
                       dimmer = dmxFrame s ! (unat (dmxChannel s) + 3),
                       flash = dmxFrame s ! (unat (dmxChannel s) + 4)\<rparr>,
                 s\<lparr>totalFramesReceived := totalFramesReceived s + 1\<rparr>)"
proof -
  have len: "length (dmxFrame s) = 513"
    using assms(1) by (simp add: frame_ok_def DMX_FRAME_SIZE_def)
  have a: "unat (dmxChannel s) < 256"
    by (rule unat_u8_lt)
  have rd: "frame_read (dmxFrame s) (unat (dmxChannel s) + k)
              = Some (dmxFrame s ! (unat (dmxChannel s) + k))"
    if "k \<le> 4" for k
    using that a len by (simp add: frame_read_in)
  have r0: "frame_read (dmxFrame s) 0 = Some (dmxFrame s ! 0)"
    using len by (simp add: frame_read_in)
  show ?thesis
    using rd [of 0] rd [of 1] rd [of 2] rd [of 3] rd [of 4] r0 assms(2)
    by (simp add: DMX_DecodeFrame_def offsets)
qed

lemma s_marked_fields:
  "dmxFrame s_marked = (replicate 513 0)[10 := 11, 11 := 22, 12 := 33, 13 := 44, 14 := 55]"
  "dmxChannel s_marked = 10"
  "totalFramesReceived s_marked = 0"
  by (simp_all add: s_marked_def s_init_def DMX_Init_def DMX_SetChannel_def DMX_ResetStats_def
      HAL_UART_Receive_IT_def dmx_startup_def Let_def DMX_FRAME_SIZE_def
      DMX_CHANNEL_MIN_def DMX_CHANNEL_MAX_def)

text \<open>At the address 10 the five markers of the channels 10 to 14 come back in order.\<close>

lemma DecodeFrame_address_10:
  "DMX_DecodeFrame (Some d0) s_marked =
     Some (True, Some \<lparr>red = 11, green = 22, blue = 33, dimmer = 44, flash = 55\<rparr>,
           s_marked\<lparr>totalFramesReceived := 1\<rparr>)"
proof -
  have h1: "frame_ok s_marked"
    by (simp add: frame_ok_def s_marked_fields DMX_FRAME_SIZE_def)
  have h2: "dmxFrame s_marked ! 0 = DMX_START_CODE"
    by (simp add: s_marked_fields DMX_START_CODE_def)
  from DecodeFrame_reads_stored [OF h1 h2, of d0] show ?thesis
    by (simp add: s_marked_fields)
qed

lemma s_frame300_fields:
  "dmxFrame s_frame300 = (replicate 513 0)
       [44 := 101, 45 := 102, 46 := 103, 47 := 104, 48 := 105,
        300 := 11, 301 := 22, 302 := 33, 303 := 44, 304 := 55]"
  "dmxChannel s_frame300 = 10"
  "totalFramesReceived s_frame300 = 0"
  by (simp_all add: s_frame300_def s_init_def DMX_Init_def DMX_SetChannel_def DMX_ResetStats_def
      HAL_UART_Receive_IT_def dmx_startup_def Let_def DMX_FRAME_SIZE_def
      DMX_CHANNEL_MIN_def DMX_CHANNEL_MAX_def)

text \<open>
  C3. The claim has decode return the bytes at \<open>a\<close> to \<open>a + 4\<close> for every configured
  address \<open>a\<close> from 1 to 506. At the address 300 the code does not: the frame has the
  start code 0 and the markers 11, 22, 33, 44, 55 in the channels 300 to 304;
  \<open>DMX_SetChannel(300)\<close> returns true, but its \<open>uint8_t\<close> parameter holds 44 and 44 is
  stored; \<open>DMX_DecodeFrame\<close> then returns true with the bytes of the channels 44 to 48,
  and none of the markers.
\<close>

theorem DecodeFrame_address_300:
  "dmxFrame s_frame300 ! 0 = DMX_START_CODE
 \<and> map (\<lambda>k. dmxFrame s_frame300 ! (300 + k)) [0, 1, 2, 3, 4] = [11, 22, 33, 44, 55]
 \<and> DMX_SetChannel (uint8_arg 300) s_frame300 = (True, s_frame300\<lparr>dmxChannel := 44\<rparr>)
 \<and> DMX_DecodeFrame (Some d0) (snd (DMX_SetChannel (uint8_arg 300) s_frame300)) =
      Some (True, Some \<lparr>red = 101, green = 102, blue = 103, dimmer = 104, flash = 105\<rparr>,
            s_frame300\<lparr>dmxChannel := 44, totalFramesReceived := 1\<rparr>)"
proof -
  have set: "DMX_SetChannel (uint8_arg 300) s_frame300 = (True, s_frame300\<lparr>dmxChannel := 44\<rparr>)"
    by (simp add: DMX_SetChannel_def uint8_arg_def DMX_CHANNEL_MIN_def DMX_CHANNEL_MAX_def)
  have h1: "frame_ok (s_frame300\<lparr>dmxChannel := 44\<rparr>)"
    by (simp add: frame_ok_def s_frame300_fields DMX_FRAME_SIZE_def)
  have h2: "dmxFrame (s_frame300\<lparr>dmxChannel := 44\<rparr>) ! 0 = DMX_START_CODE"
    by (simp add: s_frame300_fields DMX_START_CODE_def)
  have dec: "DMX_DecodeFrame (Some d0) (s_frame300\<lparr>dmxChannel := 44\<rparr>) =
      Some (True, Some \<lparr>red = 101, green = 102, blue = 103, dimmer = 104, flash = 105\<rparr>,
            s_frame300\<lparr>dmxChannel := 44, totalFramesReceived := 1\<rparr>)"
    using DecodeFrame_reads_stored [OF h1 h2, of d0] by (simp add: s_frame300_fields)
  have mk: "map (\<lambda>k. dmxFrame s_frame300 ! (300 + k)) [0, 1, 2, 3, 4] = [11, 22, 33, 44, 55]"
    by (simp add: s_frame300_fields)
  from h2 mk set dec show ?thesis by simp
qed

subsection \<open>The dimmer\<close>

text \<open>The example of the function's own comment: 200, 150, 100 under a dimmer of 128.\<close>

lemma ApplyDimmer_example:
  "DMX_ApplyDimmer (Some \<lparr>red = 200, green = 150, blue = 100, dimmer = 128, flash = 7\<rparr>) (Some d0)
     = Some \<lparr>red = 100, green = 75, blue = 50, dimmer = 128, flash = 7\<rparr>"
  by (simp add: DMX_ApplyDimmer_def scale_def d0_def)

text \<open>
  C4. For any five input bytes and any output struct, \<open>DMX_ApplyDimmer\<close> leaves in the
  output \<open>red * dimmer div 255\<close>, \<open>green * dimmer div 255\<close> and \<open>blue * dimmer div 255\<close>
  (natural-number product and floor division), and the input's dimmer and flash. Each
  32-bit product equals the product of the numbers, which is at most 65025, and each
  quotient is at most 255.
\<close>

theorem ApplyDimmer_floor:
  "\<exists>r. DMX_ApplyDimmer (Some d) (Some out) = Some r
     \<and> unat (red r) = unat (red d) * unat (dimmer d) div 255
     \<and> unat (green r) = unat (green d) * unat (dimmer d) div 255
     \<and> unat (blue r) = unat (blue d) * unat (dimmer d) div 255
     \<and> dimmer r = dimmer d \<and> flash r = flash d
     \<and> unat ((ucast (red d) :: 32 word) * ucast (dimmer d)) = unat (red d) * unat (dimmer d)
     \<and> unat ((ucast (green d) :: 32 word) * ucast (dimmer d)) = unat (green d) * unat (dimmer d)
     \<and> unat ((ucast (blue d) :: 32 word) * ucast (dimmer d)) = unat (blue d) * unat (dimmer d)
     \<and> unat (red d) * unat (dimmer d) \<le> 65025
     \<and> unat (green d) * unat (dimmer d) \<le> 65025
     \<and> unat (blue d) * unat (dimmer d) \<le> 65025
     \<and> unat (red d) * unat (dimmer d) div 255 \<le> 255
     \<and> unat (green d) * unat (dimmer d) div 255 \<le> 255
     \<and> unat (blue d) * unat (dimmer d) div 255 \<le> 255"
  by (simp add: DMX_ApplyDimmer_def unat_scale scale_prod scale_quot_le prod_le)

subsection \<open>The receiver, event by event\<close>

lemma step_break: "indexDmx (step BreakSignal s) = 0 \<and> dmxFlag (step BreakSignal s) = 0"
  by (simp add: DMX_ErrorCallback_def HAL_UART_Receive_IT_def)

lemma step_byte_filling:
  assumes "Suc (unat (indexDmx s)) < DMX_FRAME_SIZE"
  shows "unat (indexDmx (step (ByteReceived b) s)) = Suc (unat (indexDmx s))
       \<and> dmxFlag (step (ByteReceived b) s) = dmxFlag s"
  using assms
  by (simp add: DMX_RxCallback_def HAL_UART_Receive_IT_def DMX_FRAME_SIZE_def Let_def
      unat_index_suc)

lemma step_byte_last:
  assumes "Suc (unat (indexDmx s)) = DMX_FRAME_SIZE"
  shows "unat (indexDmx (step (ByteReceived b) s)) = DMX_FRAME_SIZE
       \<and> dmxFlag (step (ByteReceived b) s) = 1"
  using assms
  by (simp add: DMX_RxCallback_def HAL_UART_Receive_IT_def DMX_FRAME_SIZE_def Let_def
      unat_index_suc)

lemma step_poll:
  "indexDmx (step PollAndClear s) = indexDmx s
 \<and> dmxFlag (step PollAndClear s) = (if dmxFlag s = 1 then 0 else dmxFlag s)"
  by (simp add: DMX_IsNewFrameAvailable_def)

lemma run_append: "run (xs @ ys) s = run ys (run xs s)"
  by (induction xs arbitrary: s) simp_all

lemma filter_bytes: "filter is_byte (map ByteReceived bs) = map ByteReceived bs"
  by (induction bs) simp_all

text \<open>
  Without a break, and while fewer bytes have arrived than the frame holds, the fill
  index counts the bytes and the flag stays clear.
\<close>

lemma run_filling:
  assumes "BreakSignal \<notin> set es"
    and "unat (indexDmx s) + length (filter is_byte es) < DMX_FRAME_SIZE"
    and "dmxFlag s = 0"
  shows "unat (indexDmx (run es s)) = unat (indexDmx s) + length (filter is_byte es)
       \<and> dmxFlag (run es s) = 0"
  using assms
proof (induction es arbitrary: s)
  case Nil
  then show ?case by simp
next
  case (Cons e es)
  show ?case
  proof (cases e)
    case BreakSignal
    with Cons.prems show ?thesis by simp
  next
    case (ByteReceived b)
    with Cons.prems have lt: "Suc (unat (indexDmx s)) < DMX_FRAME_SIZE" by simp
    note st = step_byte_filling [OF lt, of b]
    have "unat (indexDmx (run es (step e s)))
            = unat (indexDmx (step e s)) + length (filter is_byte es)
          \<and> dmxFlag (run es (step e s)) = 0"
      using Cons.prems st ByteReceived by (intro Cons.IH) simp_all
    with st ByteReceived show ?thesis by simp
  next
    case PollAndClear
    note st = step_poll [of s]
    have "unat (indexDmx (run es (step e s)))
            = unat (indexDmx (step e s)) + length (filter is_byte es)
          \<and> dmxFlag (run es (step e s)) = 0"
      using Cons.prems st PollAndClear by (intro Cons.IH) simp_all
    with st PollAndClear show ?thesis by simp
  qed
qed

lemma run_frame_complete:
  assumes "length bs = DMX_FRAME_SIZE"
  shows "dmxFlag (run (map ByteReceived bs) (step BreakSignal s)) = 1
       \<and> unat (indexDmx (run (map ByteReceived bs) (step BreakSignal s))) = DMX_FRAME_SIZE"
proof -
  from assms have "bs \<noteq> []" by (auto simp: DMX_FRAME_SIZE_def)
  then obtain cs c where bs: "bs = cs @ [c]"
    by (metis rev_exhaust)
  with assms have len: "Suc (length cs) = DMX_FRAME_SIZE" by simp
  define u where "u = step BreakSignal s"
  have u: "indexDmx u = 0" "dmxFlag u = 0"
    unfolding u_def using step_break [of s] by blast+
  define t where "t = run (map ByteReceived cs) u"
  have "unat (indexDmx t) = unat (indexDmx u) + length (filter is_byte (map ByteReceived cs))
       \<and> dmxFlag t = 0"
    unfolding t_def using len u
    by (intro run_filling) (auto simp: filter_bytes)
  then have "Suc (unat (indexDmx t)) = DMX_FRAME_SIZE"
    using len u by (simp add: filter_bytes)
  from step_byte_last [OF this, of c] show ?thesis
    unfolding bs t_def u_def by (simp add: run_append)
qed

lemma run_polls_clear:
  "dmxFlag s = 1 \<or> dmxFlag s = 0 \<Longrightarrow> dmxFlag (run (replicate (Suc n) PollAndClear) s) = 0"
  by (induction n arbitrary: s) (auto simp: DMX_IsNewFrameAvailable_def)

text \<open>
  C7. The error callback for the module's own link, at any fill index and any flag value,
  sets the fill index to 0 and clears the ready flag; nothing of the earlier index or flag
  is examined, and buffer, address and counters stay as they were.
\<close>

theorem ErrorCallback_resets:
  "DMX_ErrorCallback (huart_dmx s) s =
     s\<lparr>indexDmx := 0, dmxFlag := 0, rxArmed := Suc (rxArmed s)\<rparr>"
  by (simp add: DMX_ErrorCallback_def HAL_UART_Receive_IT_def)

text \<open>
  C8. With the fill index at 513, the reception callback, for any handle and any received
  byte, leaves the frame buffer, the fill index, the ready flag and both statistics
  counters as they were.
\<close>

theorem RxCallback_full_discards:
  assumes "unat (indexDmx s) = DMX_FRAME_SIZE"
  shows "dmxFrame (DMX_RxCallback huart (s\<lparr>rxBuf := b\<rparr>)) = dmxFrame s
       \<and> indexDmx (DMX_RxCallback huart (s\<lparr>rxBuf := b\<rparr>)) = indexDmx s
       \<and> dmxFlag (DMX_RxCallback huart (s\<lparr>rxBuf := b\<rparr>)) = dmxFlag s
       \<and> totalFramesReceived (DMX_RxCallback huart (s\<lparr>rxBuf := b\<rparr>)) = totalFramesReceived s
       \<and> errorFramesReceived (DMX_RxCallback huart (s\<lparr>rxBuf := b\<rparr>)) = errorFramesReceived s"
  using assms by (simp add: DMX_RxCallback_def HAL_UART_Receive_IT_def)

text \<open>
  C5. From any state, after a break and 513 received bytes the first poll returns true,
  and a poll after any positive number of further polls returns false. For every state,
  the poll returns true exactly when the flag is 1, and then clears it.
\<close>

theorem frame_complete_poll_once:
  assumes "length bs = DMX_FRAME_SIZE"
  shows "fst (DMX_IsNewFrameAvailable (run (map ByteReceived bs) (step BreakSignal s)))
       \<and> (\<forall>n. \<not> fst (DMX_IsNewFrameAvailable
                (run (replicate (Suc n) PollAndClear)
                   (run (map ByteReceived bs) (step BreakSignal s)))))
       \<and> (\<forall>t. fst (DMX_IsNewFrameAvailable t) = (dmxFlag t = 1))
       \<and> (\<forall>t. fst (DMX_IsNewFrameAvailable t)
              \<longrightarrow> dmxFlag (snd (DMX_IsNewFrameAvailable t)) = 0)"
proof -
  let ?s1 = "run (map ByteReceived bs) (step BreakSignal s)"
  have f: "dmxFlag ?s1 = 1"
    using run_frame_complete [OF assms] by simp
  have a: "fst (DMX_IsNewFrameAvailable ?s1)"
    using f by (simp add: DMX_IsNewFrameAvailable_def)
  have b: "\<not> fst (DMX_IsNewFrameAvailable (run (replicate (Suc n) PollAndClear) ?s1))" for n
    using run_polls_clear [of ?s1 n] f by (simp add: DMX_IsNewFrameAvailable_def)
  have c: "fst (DMX_IsNewFrameAvailable t) = (dmxFlag t = 1)" for t
    by (simp add: DMX_IsNewFrameAvailable_def)
  have d: "fst (DMX_IsNewFrameAvailable t) \<longrightarrow> dmxFlag (snd (DMX_IsNewFrameAvailable t)) = 0"
    for t
    by (simp add: DMX_IsNewFrameAvailable_def)
  from a b c d show ?thesis by blast
qed

subsection \<open>Reachable states\<close>

lemma gate_inv_rx: "gate_inv s \<Longrightarrow> gate_inv (DMX_RxCallback huart (s\<lparr>rxBuf := b\<rparr>))"
proof -
  assume g: "gate_inv s"
  have "unat (indexDmx s) < 513 \<Longrightarrow> DMX_FRAME_SIZE \<le> unat (indexDmx s + 1)
     \<Longrightarrow> unat (indexDmx s + 1) = DMX_FRAME_SIZE"
    by (simp add: unat_index_suc DMX_FRAME_SIZE_def)
  moreover have "unat (indexDmx s) < 513 \<Longrightarrow> dmxFlag s = 0"
    using g by (auto simp: gate_inv_def DMX_FRAME_SIZE_def)
  ultimately show ?thesis
    using g
    by (auto simp: gate_inv_def DMX_RxCallback_def HAL_UART_Receive_IT_def Let_def
        DMX_FRAME_SIZE_def)
qed

lemma reachable_gate_inv: "reachable s \<Longrightarrow> gate_inv s"
proof (induction rule: reachable.induct)
  case startup
  show ?case by (simp add: gate_inv_def dmx_startup_def)
next
  case (init s huart c)
  show ?case
    by (simp add: gate_inv_def DMX_Init_def DMX_SetChannel_def DMX_ResetStats_def
        HAL_UART_Receive_IT_def Let_def)
next
  case (set_channel s c)
  then show ?case by (simp add: gate_inv_def DMX_SetChannel_def)
next
  case (poll s)
  then show ?case by (auto simp: gate_inv_def DMX_IsNewFrameAvailable_def)
next
  case (decode s data ok out s')
  from DecodeFrame_state [OF decode.hyps(2)] decode.IH show ?case
    by (auto simp: gate_inv_def)
next
  case (break s huart)
  then show ?case
    by (simp add: gate_inv_def DMX_ErrorCallback_def HAL_UART_Receive_IT_def)
next
  case (byte s huart b)
  from byte.IH show ?case by (rule gate_inv_rx)
next
  case (reset s)
  then show ?case by (simp add: gate_inv_def DMX_ResetStats_def)
qed

lemma reachable_addr_inv: "reachable s \<Longrightarrow> addr_inv s"
proof (induction rule: reachable.induct)
  case startup
  show ?case by (simp add: addr_inv_def frame_ok_def dmx_startup_def)
next
  case (init s huart c)
  then show ?case
    by (auto simp: addr_inv_def frame_ok_def DMX_Init_def DMX_SetChannel_def DMX_ResetStats_def
        HAL_UART_Receive_IT_def Let_def DMX_CHANNEL_MIN_def)
next
  case (set_channel s c)
  then show ?case
    by (auto simp: addr_inv_def frame_ok_def DMX_SetChannel_def DMX_CHANNEL_MIN_def)
next
  case (poll s)
  then show ?case by (simp add: addr_inv_def frame_ok_def DMX_IsNewFrameAvailable_def)
next
  case (decode s data ok out s')
  from DecodeFrame_state [OF decode.hyps(2)] decode.IH show ?case
    by (auto simp: addr_inv_def frame_ok_def)
next
  case (break s huart)
  then show ?case
    by (simp add: addr_inv_def frame_ok_def DMX_ErrorCallback_def HAL_UART_Receive_IT_def)
next
  case (byte s huart b)
  then show ?case
    by (simp add: addr_inv_def frame_ok_def DMX_RxCallback_def HAL_UART_Receive_IT_def Let_def)
next
  case (reset s)
  then show ?case by (simp add: addr_inv_def frame_ok_def DMX_ResetStats_def)
qed

lemma reachable_step: "reachable s \<Longrightarrow> reachable (step e s)"
  by (cases e) (auto intro: reachable.intros)

lemma reachable_run: "reachable s \<Longrightarrow> reachable (run es s)"
  by (induction es arbitrary: s) (simp_all add: reachable_step)

lemma s_full_reachable: "reachable s_full"
  unfolding s_full_def s_init_def
  by (intro reachable_run reachable_step reachable.init reachable.startup)

lemma s_full_gate: "dmxFlag s_full = 1 \<and> unat (indexDmx s_full) = DMX_FRAME_SIZE"
  unfolding s_full_def by (rule run_frame_complete) simp

theorem frame_complete_poll_once_witness:
  "length (replicate DMX_FRAME_SIZE (0 :: 8 word)) = DMX_FRAME_SIZE
 \<and> fst (DMX_IsNewFrameAvailable s_full)
 \<and> \<not> fst (DMX_IsNewFrameAvailable (run (replicate (Suc 0) PollAndClear) s_full))"
proof -
  have h: "length (replicate DMX_FRAME_SIZE (0 :: 8 word)) = DMX_FRAME_SIZE" by simp
  from frame_complete_poll_once [OF h, of s_init] h show ?thesis
    unfolding s_full_def by blast
qed

theorem RxCallback_full_discards_witness:
  "unat (indexDmx s_full) = DMX_FRAME_SIZE
 \<and> dmxFrame (DMX_RxCallback (huart_dmx s_full) (s_full\<lparr>rxBuf := 7\<rparr>)) = dmxFrame s_full
 \<and> indexDmx (DMX_RxCallback (huart_dmx s_full) (s_full\<lparr>rxBuf := 7\<rparr>)) = indexDmx s_full
 \<and> dmxFlag (DMX_RxCallback (huart_dmx s_full) (s_full\<lparr>rxBuf := 7\<rparr>)) = dmxFlag s_full"
proof -
  have h: "unat (indexDmx s_full) = DMX_FRAME_SIZE" using s_full_gate by simp
  from RxCallback_full_discards [OF h, of "huart_dmx s_full" 7] h show ?thesis by blast
qed

text \<open>
  C6. In every reachable state a ready flag other than 0 comes with a fill index of 513.
  And from any state, after a break followed by events that contain no further break and
  fewer than 513 bytes (polls may be interleaved), the ready flag is 0.
\<close>

theorem gate_only_when_full:
  "(reachable s \<longrightarrow> dmxFlag s \<noteq> 0 \<longrightarrow> unat (indexDmx s) = DMX_FRAME_SIZE)
 \<and> (BreakSignal \<notin> set es \<longrightarrow> length (filter is_byte es) < DMX_FRAME_SIZE
       \<longrightarrow> dmxFlag (run es (step BreakSignal t)) = 0)"
proof -
  have a: "unat (indexDmx s) = DMX_FRAME_SIZE" if "reachable s" "dmxFlag s \<noteq> 0"
    using reachable_gate_inv [OF that(1)] that(2) by (auto simp: gate_inv_def)
  have b: "dmxFlag (run es (step BreakSignal t)) = 0"
    if "BreakSignal \<notin> set es" "length (filter is_byte es) < DMX_FRAME_SIZE"
  proof -
    define u where "u = step BreakSignal t"
    have u: "indexDmx u = 0" "dmxFlag u = 0"
      unfolding u_def using step_break [of t] by blast+
    from run_filling [of es u] that u show ?thesis
      unfolding u_def by simp
  qed
  from a b show ?thesis by blast
qed

theorem gate_only_when_full_witness:
  "reachable s_full \<and> dmxFlag s_full \<noteq> 0 \<and> unat (indexDmx s_full) = DMX_FRAME_SIZE
 \<and> BreakSignal \<notin> set [ByteReceived 1, PollAndClear, ByteReceived 2]
 \<and> length (filter is_byte [ByteReceived 1, PollAndClear, ByteReceived 2]) < DMX_FRAME_SIZE
 \<and> dmxFlag (run [ByteReceived 1, PollAndClear, ByteReceived 2] (step BreakSignal s_full)) = 0"
proof -
  have h1: "reachable s_full" by (rule s_full_reachable)
  have h2: "dmxFlag s_full \<noteq> 0" using s_full_gate by simp
  have h3: "BreakSignal \<notin> set [ByteReceived 1, PollAndClear, ByteReceived 2]" by simp
  have h4: "length (filter is_byte [ByteReceived 1, PollAndClear, ByteReceived 2]) < DMX_FRAME_SIZE"
    by (simp add: DMX_FRAME_SIZE_def)
  from gate_only_when_full [of s_full "[ByteReceived 1, PollAndClear, ByteReceived 2]" s_full]
    h1 h2 h3 h4 show ?thesis by blast
qed

text \<open>
  C9. In every reachable state the stored address \<open>a\<close> satisfies \<open>1 \<le> a\<close> and
  \<open>a + 4 \<le> 511\<close> and the frame array holds 513 bytes, so each of the five reads at
  \<open>a\<close> to \<open>a + 4\<close> finds a byte, and \<open>DMX_DecodeFrame\<close> never takes the branch of a read
  outside the array.
\<close>

theorem decode_reads_in_bounds:
  assumes "reachable s"
  shows "1 \<le> unat (dmxChannel s) \<and> unat (dmxChannel s) + 4 \<le> 511
       \<and> length (dmxFrame s) = 513
       \<and> (\<forall>k\<le>4. frame_read (dmxFrame s) (unat (dmxChannel s) + k) \<noteq> None)
       \<and> (\<forall>data. DMX_DecodeFrame data s \<noteq> None)"
proof -
  from reachable_addr_inv [OF assms]
  have nz: "dmxChannel s \<noteq> 0" and len: "length (dmxFrame s) = 513"
    by (simp_all add: addr_inv_def frame_ok_def DMX_FRAME_SIZE_def)
  have lo: "1 \<le> unat (dmxChannel s)"
    using nz by (simp add: Suc_le_eq unat_gt_0)
  have hi: "unat (dmxChannel s) < 256"
    by (rule unat_u8_lt)
  have rd: "frame_read (dmxFrame s) (unat (dmxChannel s) + k)
              = Some (dmxFrame s ! (unat (dmxChannel s) + k))"
    if "k \<le> 4" for k
    using that hi len by (simp add: frame_read_in)
  have r0: "frame_read (dmxFrame s) 0 = Some (dmxFrame s ! 0)"
    using len by (simp add: frame_read_in)
  have dec: "DMX_DecodeFrame data s \<noteq> None" for data
    using rd [of 0] rd [of 1] rd [of 2] rd [of 3] rd [of 4] r0
    by (cases data) (auto simp: DMX_DecodeFrame_def offsets)
  from lo hi len rd dec show ?thesis by auto
qed

theorem decode_reads_in_bounds_witness:
  "reachable (snd (DMX_SetChannel 255 s_init))
 \<and> unat (dmxChannel (snd (DMX_SetChannel 255 s_init))) = 255
 \<and> unat (dmxChannel (snd (DMX_SetChannel 255 s_init))) + 4 \<le> 511
 \<and> DMX_DecodeFrame (Some d0) (snd (DMX_SetChannel 255 s_init)) \<noteq> None"
proof -
  have h: "reachable (snd (DMX_SetChannel 255 s_init))"
    unfolding s_init_def by (intro reachable.set_channel reachable.init reachable.startup)
  have a: "unat (dmxChannel (snd (DMX_SetChannel 255 s_init))) = 255"
    by (simp add: DMX_SetChannel_def DMX_CHANNEL_MIN_def DMX_CHANNEL_MAX_def)
  from decode_reads_in_bounds [OF h] h a show ?thesis by simp
qed

end
